theory Spec2Isabelle
  imports Main "HOL-Library.Sublist"
begin

section \<open>JavaScript strings and the built-ins the server uses\<close>

text \<open>
  A JavaScript string is a sequence of UTF-16 code units; every operation the server applies
  (\<^verbatim>\<open>length\<close>, \<^verbatim>\<open>startsWith\<close>, \<^verbatim>\<open>substring\<close>, the regular expressions) counts and
  compares code units. A string is therefore a list of code unit values. \<open>lit\<close> writes an
  ASCII literal of the source as such a list.
\<close>

type_synonym jsstring = "nat list"

definition lit :: "string \<Rightarrow> jsstring" where
  "lit s = map of_char s"

text \<open>\<^verbatim>\<open>\d\<close> matches the ASCII digits; \<^verbatim>\<open>s.replace(/\D/g, '')\<close> keeps exactly those.\<close>

definition is_digit :: "nat \<Rightarrow> bool" where
  "is_digit u \<longleftrightarrow> 48 \<le> u \<and> u \<le> 57"

definition strip_non_digits :: "jsstring \<Rightarrow> jsstring" where
  "strip_non_digits s = filter is_digit s"

definition startsWith :: "jsstring \<Rightarrow> jsstring \<Rightarrow> bool" where
  "startsWith s p = prefix p s"

definition includes_str :: "jsstring \<Rightarrow> jsstring \<Rightarrow> bool" where
  "includes_str s p = sublist p s"

text \<open>
  \<^verbatim>\<open>s.substring(a, b)\<close> with natural-number arguments: both are clamped to the length, and
  swapped when \<open>a > b\<close>; \<open>take\<close> and \<open>drop\<close> do the clamping. \<^verbatim>\<open>s.substring(a)\<close> runs to
  the end.
\<close>

definition substring :: "jsstring \<Rightarrow> nat \<Rightarrow> nat \<Rightarrow> jsstring" where
  "substring s a b = take (max a b - min a b) (drop (min a b) s)"

definition substring_from :: "jsstring \<Rightarrow> nat \<Rightarrow> jsstring" where
  "substring_from s a = drop a s"

section \<open>Contact validation\<close>

text \<open>
  \<^verbatim>\<open>formatPhone\<close> of the server. \<^verbatim>\<open>!phone\<close> holds of a string exactly when it is empty.
  The source binds \<^verbatim>\<open>code\<close> without using it, and both branches of \<^verbatim>\<open>rest\<close> are the
  same expression; the model keeps both.
\<close>

definition formatPhone :: "jsstring \<Rightarrow> jsstring" where
  "formatPhone phone =
     (if phone = [] then []
      else
        let digits = strip_non_digits phone in
        if length digits = 11 then
          let code = (if startsWith digits (lit ''8'') then lit ''7'' else substring digits 0 1);
              rest = (if startsWith digits (lit ''8'') then substring_from digits 1
                      else substring_from digits 1)
          in lit ''+7 ('' @ substring rest 0 3 @ lit '') '' @ substring rest 3 6 @ lit ''-''
               @ substring rest 6 8 @ lit ''-'' @ substring rest 8 10
        else phone)"

text \<open>The browser script carries its own copy of the function, line for line the same.\<close>

definition client_formatPhone :: "jsstring \<Rightarrow> jsstring" where
  "client_formatPhone phone =
     (if phone = [] then []
      else
        let digits = strip_non_digits phone in
        if length digits = 11 then
          let code = (if startsWith digits (lit ''8'') then lit ''7'' else substring digits 0 1);
              rest = (if startsWith digits (lit ''8'') then substring_from digits 1
                      else substring_from digits 1)
          in lit ''+7 ('' @ substring rest 0 3 @ lit '') '' @ substring rest 3 6 @ lit ''-''
               @ substring rest 6 8 @ lit ''-'' @ substring rest 8 10
        else phone)"

definition validatePhone :: "jsstring \<Rightarrow> bool" where
  "validatePhone phone =
     (if phone = [] then True
      else
        let digits = strip_non_digits phone in
        length digits = 11 \<and> (startsWith digits (lit ''7'') \<or> startsWith digits (lit ''8'')))"

section \<open>City directory\<close>

text \<open>
  \<^verbatim>\<open>RUSSIAN_CITIES\<close>, entry by entry in the order of the source; the names are Cyrillic,
  given here by their code units with a Latin transliteration beside each.
\<close>

definition RUSSIAN_CITIES :: "jsstring list" where
  "RUSSIAN_CITIES = [
      [1052, 1086, 1089, 1082, 1074, 1072], \<comment> \<open>Moskva\<close>
      [1057, 1072, 1085, 1082, 1090, 45, 1055, 1077, 1090, 1077, 1088, 1073, 1091, 1088, 1075], \<comment> \<open>Sankt-Peterburg\<close>
      [1053, 1086, 1074, 1086, 1089, 1080, 1073, 1080, 1088, 1089, 1082], \<comment> \<open>Novosibirsk\<close>
      [1045, 1082, 1072, 1090, 1077, 1088, 1080, 1085, 1073, 1091, 1088, 1075], \<comment> \<open>Ekaterinburg\<close>
      [1050, 1072, 1079, 1072, 1085, 1100], \<comment> \<open>Kazan\<close>
      [1053, 1080, 1078, 1085, 1080, 1081, 32, 1053, 1086, 1074, 1075, 1086, 1088, 1086, 1076], \<comment> \<open>Nizhniy Novgorod\<close>
      [1063, 1077, 1083, 1103, 1073, 1080, 1085, 1089, 1082], \<comment> \<open>Chelyabinsk\<close>
      [1057, 1072, 1084, 1072, 1088, 1072], \<comment> \<open>Samara\<close>
      [1054, 1084, 1089, 1082], \<comment> \<open>Omsk\<close>
      [1056, 1086, 1089, 1090, 1086, 1074, 45, 1085, 1072, 45, 1044, 1086, 1085, 1091], \<comment> \<open>Rostov-na-Donu\<close>
      [1059, 1092, 1072], \<comment> \<open>Ufa\<close>
      [1050, 1088, 1072, 1089, 1085, 1086, 1103, 1088, 1089, 1082], \<comment> \<open>Krasnoyarsk\<close>
      [1042, 1086, 1088, 1086, 1085, 1077, 1078], \<comment> \<open>Voronezh\<close>
      [1055, 1077, 1088, 1084, 1100], \<comment> \<open>Perm\<close>
      [1042, 1086, 1083, 1075, 1086, 1075, 1088, 1072, 1076], \<comment> \<open>Volgograd\<close>
      [1050, 1088, 1072, 1089, 1085, 1086, 1076, 1072, 1088], \<comment> \<open>Krasnodar\<close>
      [1057, 1072, 1088, 1072, 1090, 1086, 1074], \<comment> \<open>Saratov\<close>
      [1058, 1102, 1084, 1077, 1085, 1100], \<comment> \<open>Tyumen\<close>
      [1058, 1086, 1083, 1100, 1103, 1090, 1090, 1080], \<comment> \<open>Tolyatti\<close>
      [1048, 1078, 1077, 1074, 1089, 1082], \<comment> \<open>Izhevsk\<close>
      [1041, 1072, 1088, 1085, 1072, 1091, 1083], \<comment> \<open>Barnaul\<close>
      [1059, 1083, 1100, 1103, 1085, 1086, 1074, 1089, 1082], \<comment> \<open>Ulyanovsk\<close>
      [1048, 1088, 1082, 1091, 1090, 1089, 1082], \<comment> \<open>Irkutsk\<close>
      [1061, 1072, 1073, 1072, 1088, 1086, 1074, 1089, 1082], \<comment> \<open>Khabarovsk\<close>
      [1071, 1088, 1086, 1089, 1083, 1072, 1074, 1083, 1100], \<comment> \<open>Yaroslavl\<close>
      [1042, 1083, 1072, 1076, 1080, 1074, 1086, 1089, 1090, 1086, 1082], \<comment> \<open>Vladivostok\<close>
      [1052, 1072, 1093, 1072, 1095, 1082, 1072, 1083, 1072], \<comment> \<open>Makhachkala\<close>
      [1058, 1086, 1084, 1089, 1082], \<comment> \<open>Tomsk\<close>
      [1054, 1088, 1077, 1085, 1073, 1091, 1088, 1075], \<comment> \<open>Orenburg\<close>
      [1050, 1077, 1084, 1077, 1088, 1086, 1074, 1086], \<comment> \<open>Kemerovo\<close>
      [1053, 1086, 1074, 1086, 1082, 1091, 1079, 1085, 1077, 1094, 1082], \<comment> \<open>Novokuznetsk\<close>
      [1056, 1103, 1079, 1072, 1085, 1100], \<comment> \<open>Ryazan\<close>
      [1040, 1089, 1090, 1088, 1072, 1093, 1072, 1085, 1100], \<comment> \<open>Astrakhan\<close>
      [1053, 1072, 1073, 1077, 1088, 1077, 1078, 1085, 1099, 1077, 32, 1063, 1077, 1083, 1085, 1099], \<comment> \<open>Naberezhnye Chelny\<close>
      [1055, 1077, 1085, 1079, 1072], \<comment> \<open>Penza\<close>
      [1051, 1080, 1087, 1077, 1094, 1082], \<comment> \<open>Lipetsk\<close>
      [1050, 1080, 1088, 1086, 1074], \<comment> \<open>Kirov\<close>
      [1063, 1077, 1073, 1086, 1082, 1089, 1072, 1088, 1099], \<comment> \<open>Cheboksary\<close>
      [1058, 1091, 1083, 1072], \<comment> \<open>Tula\<close>
      [1050, 1072, 1083, 1080, 1085, 1080, 1085, 1075, 1088, 1072, 1076], \<comment> \<open>Kaliningrad\<close>
      [1041, 1072, 1083, 1072, 1096, 1080, 1093, 1072], \<comment> \<open>Balashikha\<close>
      [1050, 1091, 1088, 1089, 1082], \<comment> \<open>Kursk\<close>
      [1057, 1077, 1074, 1072, 1089, 1090, 1086, 1087, 1086, 1083, 1100], \<comment> \<open>Sevastopol\<close>
      [1057, 1086, 1095, 1080], \<comment> \<open>Sochi\<close>
      [1057, 1090, 1072, 1074, 1088, 1086, 1087, 1086, 1083, 1100], \<comment> \<open>Stavropol\<close>
      [1059, 1083, 1072, 1085, 45, 1059, 1076, 1101], \<comment> \<open>Ulan-Ude\<close>
      [1058, 1074, 1077, 1088, 1100], \<comment> \<open>Tver\<close>
      [1052, 1072, 1075, 1085, 1080, 1090, 1086, 1075, 1086, 1088, 1089, 1082], \<comment> \<open>Magnitogorsk\<close>
      [1048, 1074, 1072, 1085, 1086, 1074, 1086], \<comment> \<open>Ivanovo\<close>
      [1041, 1088, 1103, 1085, 1089, 1082], \<comment> \<open>Bryansk\<close>
      [1041, 1077, 1083, 1075, 1086, 1088, 1086, 1076], \<comment> \<open>Belgorod\<close>
      [1057, 1091, 1088, 1075, 1091, 1090], \<comment> \<open>Surgut\<close>
      [1042, 1083, 1072, 1076, 1080, 1084, 1080, 1088], \<comment> \<open>Vladimir\<close>
      [1053, 1080, 1078, 1085, 1080, 1081, 32, 1058, 1072, 1075, 1080, 1083], \<comment> \<open>Nizhniy Tagil\<close>
      [1040, 1088, 1093, 1072, 1085, 1075, 1077, 1083, 1100, 1089, 1082], \<comment> \<open>Arkhangelsk\<close>
      [1063, 1080, 1090, 1072], \<comment> \<open>Chita\<close>
      [1050, 1072, 1083, 1091, 1075, 1072], \<comment> \<open>Kaluga\<close>
      [1057, 1080, 1084, 1092, 1077, 1088, 1086, 1087, 1086, 1083, 1100], \<comment> \<open>Simferopol\<close>
      [1057, 1084, 1086, 1083, 1077, 1085, 1089, 1082], \<comment> \<open>Smolensk\<close>
      [1042, 1086, 1083, 1078, 1089, 1082, 1080, 1081], \<comment> \<open>Volzhskiy\<close>
      [1057, 1072, 1088, 1072, 1085, 1089, 1082], \<comment> \<open>Saransk\<close>
      [1063, 1077, 1088, 1077, 1087, 1086, 1074, 1077, 1094], \<comment> \<open>Cherepovets\<close>
      [1050, 1091, 1088, 1075, 1072, 1085], \<comment> \<open>Kurgan\<close>
      [1054, 1088, 1105, 1083], \<comment> \<open>Oryol\<close>
      [1042, 1086, 1083, 1086, 1075, 1076, 1072], \<comment> \<open>Vologda\<close>
      [1071, 1082, 1091, 1090, 1089, 1082], \<comment> \<open>Yakutsk\<close>
      [1055, 1086, 1076, 1086, 1083, 1100, 1089, 1082], \<comment> \<open>Podolsk\<close>
      [1057, 1090, 1077, 1088, 1083, 1080, 1090, 1072, 1084, 1072, 1082], \<comment> \<open>Sterlitamak\<close>
      [1043, 1088, 1086, 1079, 1085, 1099, 1081], \<comment> \<open>Groznyy\<close>
      [1042, 1083, 1072, 1076, 1080, 1082, 1072, 1074, 1082, 1072, 1079], \<comment> \<open>Vladikavkaz\<close>
      [1052, 1091, 1088, 1084, 1072, 1085, 1089, 1082], \<comment> \<open>Murmansk\<close>
      [1058, 1072, 1084, 1073, 1086, 1074], \<comment> \<open>Tambov\<close>
      [1055, 1077, 1090, 1088, 1086, 1079, 1072, 1074, 1086, 1076, 1089, 1082], \<comment> \<open>Petrozavodsk\<close>
      [1050, 1086, 1089, 1090, 1088, 1086, 1084, 1072], \<comment> \<open>Kostroma\<close>
      [1053, 1080, 1078, 1085, 1077, 1074, 1072, 1088, 1090, 1086, 1074, 1089, 1082], \<comment> \<open>Nizhnevartovsk\<close>
      [1053, 1086, 1074, 1086, 1088, 1086, 1089, 1089, 1080, 1081, 1089, 1082], \<comment> \<open>Novorossiysk\<close>
      [1049, 1086, 1096, 1082, 1072, 1088, 45, 1054, 1083, 1072], \<comment> \<open>Yoshkar-Ola\<close>
      [1061, 1080, 1084, 1082, 1080], \<comment> \<open>Khimki\<close>
      [1058, 1072, 1075, 1072, 1085, 1088, 1086, 1075], \<comment> \<open>Taganrog\<close>
      [1050, 1086, 1084, 1089, 1086, 1084, 1086, 1083, 1100, 1089, 1082, 45, 1085, 1072, 45, 1040, 1084, 1091, 1088, 1077], \<comment> \<open>Komsomolsk-na-Amure\<close>
      [1057, 1099, 1082, 1090, 1099, 1074, 1082, 1072, 1088], \<comment> \<open>Syktyvkar\<close>
      [1053, 1072, 1083, 1100, 1095, 1080, 1082], \<comment> \<open>Nalchik\<close>
      [1064, 1072, 1093, 1090, 1099], \<comment> \<open>Shakhty\<close>
      [1044, 1079, 1077, 1088, 1078, 1080, 1085, 1089, 1082], \<comment> \<open>Dzerzhinsk\<close>
      [1054, 1088, 1089, 1082], \<comment> \<open>Orsk\<close>
      [1041, 1088, 1072, 1090, 1089, 1082], \<comment> \<open>Bratsk\<close>
      [1069, 1085, 1075, 1077, 1083, 1100, 1089], \<comment> \<open>Engels\<close>
      [1040, 1085, 1075, 1072, 1088, 1089, 1082], \<comment> \<open>Angarsk\<close>
      [1050, 1086, 1088, 1086, 1083, 1105, 1074], \<comment> \<open>Korolyov\<close>
      [1055, 1089, 1082, 1086, 1074], \<comment> \<open>Pskov\<close>
      [1041, 1080, 1081, 1089, 1082], \<comment> \<open>Biysk\<close>
      [1055, 1088, 1086, 1082, 1086, 1087, 1100, 1077, 1074, 1089, 1082], \<comment> \<open>Prokopevsk\<close>
      [1056, 1099, 1073, 1080, 1085, 1089, 1082], \<comment> \<open>Rybinsk\<close>
      [1041, 1072, 1083, 1072, 1082, 1086, 1074, 1086], \<comment> \<open>Balakovo\<close>
      [1040, 1088, 1084, 1072, 1074, 1080, 1088], \<comment> \<open>Armavir\<close>
      [1070, 1078, 1085, 1086, 45, 1057, 1072, 1093, 1072, 1083, 1080, 1085, 1089, 1082], \<comment> \<open>Yuzhno-Sakhalinsk\<close>
      [1057, 1077, 1074, 1077, 1088, 1086, 1076, 1074, 1080, 1085, 1089, 1082], \<comment> \<open>Severodvinsk\<close>
      [1040, 1073, 1072, 1082, 1072, 1085], \<comment> \<open>Abakan\<close>
      [1053, 1086, 1088, 1080, 1083, 1100, 1089, 1082], \<comment> \<open>Norilsk\<close>
      [1051, 1102, 1073, 1077, 1088, 1094, 1099], \<comment> \<open>Lyubertsy\<close>
      [1052, 1099, 1090, 1080, 1097, 1080], \<comment> \<open>Mytishchi\<close>
      [1052, 1080, 1072, 1089, 1089], \<comment> \<open>Miass\<close>
      [1053, 1086, 1074, 1086, 1095, 1077, 1088, 1082, 1072, 1089, 1089, 1082], \<comment> \<open>Novocherkassk\<close>
      [1050, 1072, 1084, 1077, 1085, 1089, 1082, 45, 1059, 1088, 1072, 1083, 1100, 1089, 1082, 1080, 1081], \<comment> \<open>Kamensk-Uralskiy\<close>
      [1047, 1083, 1072, 1090, 1086, 1091, 1089, 1090], \<comment> \<open>Zlatoust\<close>
      [1069, 1083, 1077, 1082, 1090, 1088, 1086, 1089, 1090, 1072, 1083, 1100], \<comment> \<open>Elektrostal\<close>
      [1040, 1083, 1100, 1084, 1077, 1090, 1100, 1077, 1074, 1089, 1082], \<comment> \<open>Almetevsk\<close>
      [1057, 1072, 1083, 1072, 1074, 1072, 1090], \<comment> \<open>Salavat\<close>
      [1050, 1086, 1087, 1077, 1081, 1089, 1082], \<comment> \<open>Kopeysk\<close>
      [1055, 1103, 1090, 1080, 1075, 1086, 1088, 1089, 1082], \<comment> \<open>Pyatigorsk\<close>
      [1056, 1091, 1073, 1094, 1086, 1074, 1089, 1082], \<comment> \<open>Rubtsovsk\<close>
      [1041, 1077, 1088, 1077, 1079, 1085, 1080, 1082, 1080], \<comment> \<open>Berezniki\<close>
      [1050, 1086, 1083, 1086, 1084, 1085, 1072], \<comment> \<open>Kolomna\<close>
      [1052, 1072, 1081, 1082, 1086, 1087], \<comment> \<open>Maykop\<close>
      [1054, 1076, 1080, 1085, 1094, 1086, 1074, 1086], \<comment> \<open>Odintsovo\<close>
      [1050, 1086, 1074, 1088, 1086, 1074], \<comment> \<open>Kovrov\<close>
      [1050, 1080, 1089, 1083, 1086, 1074, 1086, 1076, 1089, 1082], \<comment> \<open>Kislovodsk\<close>
      [1046, 1077, 1083, 1077, 1079, 1085, 1086, 1076, 1086, 1088, 1086, 1078, 1085, 1099, 1081], \<comment> \<open>Zheleznodorozhnyy\<close>
      [1053, 1086, 1074, 1086, 1084, 1086, 1089, 1082, 1086, 1074, 1089, 1082], \<comment> \<open>Novomoskovsk\<close>
      [1057, 1077, 1088, 1087, 1091, 1093, 1086, 1074], \<comment> \<open>Serpukhov\<close>
      [1053, 1086, 1074, 1086, 1096, 1072, 1093, 1090, 1080, 1085, 1089, 1082], \<comment> \<open>Novoshakhtinsk\<close>
      [1053, 1077, 1092, 1090, 1077, 1102, 1075, 1072, 1085, 1089, 1082], \<comment> \<open>Nefteyugansk\<close>
      [1055, 1077, 1088, 1074, 1086, 1091, 1088, 1072, 1083, 1100, 1089, 1082], \<comment> \<open>Pervouralsk\<close>
      [1044, 1077, 1088, 1073, 1077, 1085, 1090], \<comment> \<open>Derbent\<close>
      [1063, 1077, 1088, 1082, 1077, 1089, 1089, 1082], \<comment> \<open>Cherkessk\<close>
      [1054, 1088, 1077, 1093, 1086, 1074, 1086, 45, 1047, 1091, 1077, 1074, 1086], \<comment> \<open>Orekhovo-Zuevo\<close>
      [1053, 1077, 1092, 1090, 1077, 1082, 1072, 1084, 1089, 1082], \<comment> \<open>Neftekamsk\<close>
      [1050, 1088, 1072, 1089, 1085, 1086, 1075, 1086, 1088, 1089, 1082], \<comment> \<open>Krasnogorsk\<close>
      [1044, 1080, 1084, 1080, 1090, 1088, 1086, 1074, 1075, 1088, 1072, 1076], \<comment> \<open>Dimitrovgrad\<close>
      [1041, 1072, 1090, 1072, 1081, 1089, 1082], \<comment> \<open>Bataysk\<close>
      [1052, 1091, 1088, 1086, 1084], \<comment> \<open>Murom\<close>
      [1043, 1072, 1090, 1095, 1080, 1085, 1072], \<comment> \<open>Gatchina\<close>
      [1057, 1077, 1088, 1075, 1080, 1077, 1074, 32, 1055, 1086, 1089, 1072, 1076], \<comment> \<open>Sergiev Posad\<close>
      [1053, 1086, 1074, 1086, 1090, 1088, 1086, 1080, 1094, 1082], \<comment> \<open>Novotroitsk\<close>
      [1042, 1086, 1089, 1082, 1088, 1077, 1089, 1077, 1085, 1089, 1082], \<comment> \<open>Voskresensk\<close>
      [1045, 1083, 1077, 1094], \<comment> \<open>Elets\<close>
      [1045, 1074, 1087, 1072, 1090, 1086, 1088, 1080, 1103], \<comment> \<open>Evpatoriya\<close>
      [1056, 1077, 1091, 1090, 1086, 1074], \<comment> \<open>Reutov\<close>
      [1040, 1088, 1079, 1072, 1084, 1072, 1089], \<comment> \<open>Arzamas\<close>
      [1041, 1077, 1088, 1076, 1089, 1082], \<comment> \<open>Berdsk\<close>
      [1069, 1083, 1080, 1089, 1090, 1072], \<comment> \<open>Elista\<close>
      [1053, 1086, 1075, 1080, 1085, 1089, 1082], \<comment> \<open>Noginsk\<close>
      [1044, 1086, 1084, 1086, 1076, 1077, 1076, 1086, 1074, 1086], \<comment> \<open>Domodedovo\<close>
      [1054, 1073, 1085, 1080, 1085, 1089, 1082], \<comment> \<open>Obninsk\<close>
      [1050, 1072, 1089, 1087, 1080, 1081, 1089, 1082], \<comment> \<open>Kaspiysk\<close>
      [1050, 1099, 1079, 1099, 1083], \<comment> \<open>Kyzyl\<close>
      [1053, 1072, 1079, 1088, 1072, 1085, 1100], \<comment> \<open>Nazran\<close>
      [1056, 1072, 1084, 1077, 1085, 1089, 1082, 1086, 1077], \<comment> \<open>Ramenskoe\<close>
      [1053, 1072, 1093, 1086, 1076, 1082, 1072], \<comment> \<open>Nakhodka\<close>
      [1059, 1089, 1089, 1091, 1088, 1080, 1081, 1089, 1082] \<comment> \<open>Ussuriysk\<close>
   ]"

text \<open>
  \<^verbatim>\<open>toLowerCase\<close> on the scripts the directory and its queries are written in: Basic Latin,
  Latin-1 and the Cyrillic capitals U+0400 to U+042F, each mapped unit by unit; this model
  leaves every other code unit as it is.
\<close>

definition lower_unit :: "nat \<Rightarrow> nat" where
  "lower_unit u =
     (if 65 \<le> u \<and> u \<le> 90 then u + 32
      else if 192 \<le> u \<and> u \<le> 222 \<and> u \<noteq> 215 then u + 32
      else if 1024 \<le> u \<and> u \<le> 1039 then u + 80
      else if 1040 \<le> u \<and> u \<le> 1071 then u + 32
      else u)"

definition toLowerCase :: "jsstring \<Rightarrow> jsstring" where
  "toLowerCase s = map lower_unit s"

text \<open>
  \<^verbatim>\<open>\s\<close> and \<^verbatim>\<open>trim\<close> share one set of code units: the white space and line terminators
  of ECMAScript.
\<close>

definition is_space :: "nat \<Rightarrow> bool" where
  "is_space u \<longleftrightarrow>
     (9 \<le> u \<and> u \<le> 13) \<or> u = 32 \<or> u = 160 \<or> u = 5760 \<or> (8192 \<le> u \<and> u \<le> 8202)
     \<or> u = 8232 \<or> u = 8233 \<or> u = 8239 \<or> u = 8287 \<or> u = 12288 \<or> u = 65279"

definition trim :: "jsstring \<Rightarrow> jsstring" where
  "trim s = rev (dropWhile is_space (rev (dropWhile is_space s)))"

text \<open>
  \<^verbatim>\<open>s.split(/[-\s]+/)\<close>: the string is cut at every maximal run of hyphens and white space.
  A run at the very start or end leaves an empty piece there, as in JavaScript. The flag
  says that the previous unit belonged to a run; \<open>acc\<close> is the piece being read.
\<close>

definition is_separator :: "nat \<Rightarrow> bool" where
  "is_separator u \<longleftrightarrow> u = 45 \<or> is_space u"

fun split_from :: "bool \<Rightarrow> jsstring \<Rightarrow> jsstring \<Rightarrow> jsstring list" where
  "split_from in_run acc [] = [acc]"
| "split_from in_run acc (u # us) =
     (if is_separator u then
        (if in_run then split_from True [] us else acc # split_from True [] us)
      else split_from False (acc @ [u]) us)"

definition split_words :: "jsstring \<Rightarrow> jsstring list" where
  "split_words s = split_from False [] s"

definition slice :: "'a list \<Rightarrow> nat \<Rightarrow> nat \<Rightarrow> 'a list" where
  "slice xs a b = take (b - a) (drop a xs)"

text \<open>
  The handler of \<^verbatim>\<open>GET /api/cities\<close>, for a query parameter that is a string. The value
  is the array sent back.
\<close>

definition search :: "jsstring \<Rightarrow> jsstring list" where
  "search query =
     (if query \<noteq> [] \<and> trim query \<noteq> [] then
        let searchTerm = trim (toLowerCase query);
            exactMatches =
              filter (\<lambda>city. startsWith (toLowerCase city) searchTerm) RUSSIAN_CITIES;
            results =
              (if length exactMatches < 10 then
                 let wordMatches =
                       filter (\<lambda>city.
                         if city \<in> set exactMatches then False
                         else
                           let words = split_words (toLowerCase city)
                           in list_ex (\<lambda>word. startsWith word searchTerm) words)
                         RUSSIAN_CITIES
                 in exactMatches @ wordMatches
               else exactMatches)
        in slice results 0 15
      else [])"

definition validateCity :: "jsstring \<Rightarrow> bool" where
  "validateCity city =
     (if city = [] then False
      else list_ex (\<lambda>russianCity. toLowerCase russianCity = toLowerCase city) RUSSIAN_CITIES)"

text \<open>
  The handler of \<^verbatim>\<open>GET /api/cities/validate/:city\<close>. Each \<^verbatim>\<open>for ... of\<close> loop with its
  \<^verbatim>\<open>break\<close> is a recursion over the directory that carries the variable
  \<^verbatim>\<open>suggestion\<close>; \<^verbatim>\<open>!suggestion\<close> holds of \<^verbatim>\<open>null\<close> and of the empty string.
\<close>

record validate_response =
  resp_city :: jsstring
  resp_isValid :: bool
  resp_suggestion :: "jsstring option"

fun suggest_loop :: "(jsstring \<Rightarrow> bool) \<Rightarrow> jsstring option \<Rightarrow> jsstring list \<Rightarrow> jsstring option" where
  "suggest_loop matches suggestion [] = suggestion"
| "suggest_loop matches suggestion (russianCity # rest) =
     (if matches russianCity then Some russianCity else suggest_loop matches suggestion rest)"

definition falsy :: "jsstring option \<Rightarrow> bool" where
  "falsy v = (case v of None \<Rightarrow> True | Some s \<Rightarrow> s = [])"

definition validate_city_handler :: "jsstring \<Rightarrow> validate_response" where
  "validate_city_handler city =
     (let isValid = validateCity city;
          suggestion =
            (if \<not> isValid then
               let input = toLowerCase city;
                   suggestion1 =
                     suggest_loop (\<lambda>russianCity. startsWith (toLowerCase russianCity) input)
                       None RUSSIAN_CITIES
               in if falsy suggestion1 then
                    suggest_loop (\<lambda>russianCity. includes_str (toLowerCase russianCity) input)
                      suggestion1 RUSSIAN_CITIES
                  else suggestion1
             else None)
      in \<lparr>resp_city = city, resp_isValid = isValid, resp_suggestion = suggestion\<rparr>)"

section \<open>Project records and the backing document\<close>

text \<open>
  A JSON text is represented by what \<^verbatim>\<open>JSON.parse\<close> makes of it: \<open>Unparsable\<close> stands for
  every text the parser rejects, \<open>Json v\<close> for a text that parses to \<open>v\<close>, which is also what
  \<^verbatim>\<open>JSON.stringify(v)\<close> writes. Texts that parse to a value of another shape than the one
  the server itself writes are outside the model.
\<close>

datatype 'a json = Unparsable | Json 'a

datatype error = ReadError | WriteError | SyntaxError | TypeError | RangeError | UnlinkError

definition JSON_parse :: "'a json \<Rightarrow> error + 'a" where
  "JSON_parse text = (case text of Unparsable \<Rightarrow> Inl SyntaxError | Json v \<Rightarrow> Inr v)"


text \<open>
  What the export reads of the value that the text in the field \<^verbatim>\<open>contact\<close> parses to.
  Of a value other than \<^verbatim>\<open>null\<close> it reads the properties \<^verbatim>\<open>phone\<close>, \<^verbatim>\<open>email\<close> and
  \<^verbatim>\<open>telegram\<close>: such a property is \<open>None\<close> when it is missing or falsy, and otherwise the
  text that a template literal prints for it. Reading a property of \<^verbatim>\<open>null\<close> throws a
  \<^verbatim>\<open>TypeError\<close>.
\<close>

record contacts =
  c_phone :: "jsstring option"
  c_email :: "jsstring option"
  c_telegram :: "jsstring option"
  c_otherContact :: "jsstring option"

datatype contact_value = Null_value | Object_value contacts

text \<open>
  The interface \<^verbatim>\<open>Project\<close>. The price is a number that the server only ever prints; it is
  held as the text JavaScript prints for it. Fields marked \<^verbatim>\<open>?\<close> in the source are options.
\<close>

record project =
  p_id :: jsstring
  p_title :: jsstring
  p_tagline :: jsstring
  p_description :: jsstring
  p_image :: "jsstring option"
  p_city :: jsstring
  p_price :: jsstring
  p_contact :: "contact_value json"
  p_phone :: "jsstring option"
  p_email :: "jsstring option"
  p_telegram :: "jsstring option"
  p_otherContact :: "jsstring option"
  p_createdAt :: jsstring

text \<open>
  The part of the file system the server touches. \<open>data_file\<close> is the content of
  \<^verbatim>\<open>projects.json\<close>, \<open>None\<close> when reading it throws; \<open>write_fails\<close> says that writing it
  throws. \<open>files\<close> are the paths that exist otherwise, \<open>undeletable\<close> those whose
  \<^verbatim>\<open>unlinkSync\<close> throws. \<open>fs_log\<close> records the calls made on those paths, oldest first; it
  is there to state which calls a handler makes. A call that throws gives back the error
  beside the world it leaves. Writes to the console are not modelled.
\<close>

datatype fs_call = ExistsSync jsstring | UnlinkSync jsstring

record world =
  data_file :: "project list json option"
  write_fails :: bool
  files :: "jsstring set"
  undeletable :: "jsstring set"
  fs_log :: "fs_call list"

definition readFileSync :: "world \<Rightarrow> error + project list json" where
  "readFileSync w = (case data_file w of None \<Rightarrow> Inl ReadError | Some text \<Rightarrow> Inr text)"




text \<open>\<^verbatim>\<open>readProjects\<close>: the body of the \<^verbatim>\<open>try\<close>, then the function with its \<^verbatim>\<open>catch\<close>.\<close>

definition readProjects_try :: "world \<Rightarrow> error + project list" where
  "readProjects_try w =
     (case readFileSync w of Inl e \<Rightarrow> Inl e | Inr data \<Rightarrow> JSON_parse data)"

definition readProjects :: "world \<Rightarrow> project list" where
  "readProjects w = (case readProjects_try w of Inl e \<Rightarrow> [] | Inr projects \<Rightarrow> projects)"


text \<open>What a handler answers: the JSON body of a success, or the status of a failure.\<close>

datatype 'a response = Sent 'a | Status_400 | Status_404 | Status_500

section \<open>Creating a project: the phone step\<close>

text \<open>
  The lines of the \<^verbatim>\<open>POST /api/projects\<close> handler that format and then validate the phone
  of the contact object: \<open>Inl Status_400\<close> is the early return, \<open>Inr phone\<close> the value the
  handler carries on with.
\<close>

definition create_phone_step :: "jsstring \<Rightarrow> unit response + jsstring" where
  "create_phone_step rawPhone =
     (let phone = rawPhone in
      if phone \<noteq> [] then
        let phone = formatPhone phone in
        if \<not> validatePhone phone then Inl Status_400 else Inr phone
      else Inr phone)"

section \<open>Deleting a project\<close>





section \<open>Projects of a date\<close>

text \<open>
  The calendar of ECMAScript: the year, month and day of the month of a day number counted
  from 1 January 1970, in the proleptic Gregorian calendar.
\<close>

definition civil_from_days :: "int \<Rightarrow> int \<times> int \<times> int" where
  "civil_from_days n =
     (let z = n + 719468;
          era = z div 146097;
          doe = z mod 146097;
          yoe = (doe - doe div 1460 + doe div 36524 - doe div 146096) div 365;
          y = yoe + era * 400;
          doy = doe - (365 * yoe + yoe div 4 - yoe div 100);
          mp = (5 * doy + 2) div 153;
          d = doy - (153 * mp + 2) div 5 + 1;
          m = (if mp < 10 then mp + 3 else mp - 9)
      in (if m \<le> 2 then y + 1 else y, m, d))"

definition digit_at :: "nat \<Rightarrow> nat \<Rightarrow> nat" where
  "digit_at n i = 48 + (n div 10 ^ i) mod 10"

definition pad2 :: "nat \<Rightarrow> jsstring" where
  "pad2 n = [digit_at n 1, digit_at n 0]"

definition year_text :: "int \<Rightarrow> jsstring" where
  "year_text y =
     (if 0 \<le> y \<and> y \<le> 9999 then map (digit_at (nat y)) [3, 2, 1, 0]
      else (if y < 0 then lit ''-'' else lit ''+'') @ map (digit_at (nat \<bar>y\<bar>)) [5, 4, 3, 2, 1, 0])"

definition date_text_of_day :: "int \<Rightarrow> jsstring" where
  "date_text_of_day n =
     (case civil_from_days n of
        (y, m, d) \<Rightarrow> year_text y @ lit ''-'' @ pad2 (nat m) @ lit ''-'' @ pad2 (nat d))"

definition msPerDay :: int where
  "msPerDay = 86400000"

text \<open>
  \<^verbatim>\<open>new Date(s).toISOString().split('T')[0]\<close>. How \<^verbatim>\<open>new Date\<close> reads a string depends on
  the engine for all but the ISO format, so the reading is a parameter \<open>timeValue\<close>: the
  milliseconds since the epoch, \<open>None\<close> for an invalid date. A time value beyond the range of
  \<^verbatim>\<open>Date\<close> is invalid too, and \<^verbatim>\<open>toISOString\<close> throws a \<^verbatim>\<open>RangeError\<close> on an invalid
  date. \<^verbatim>\<open>toISOString\<close> prints the UTC date, which has no \<^verbatim>\<open>T\<close> in it.
\<close>

definition iso_date :: "(jsstring \<Rightarrow> int option) \<Rightarrow> jsstring \<Rightarrow> error + jsstring" where
  "iso_date timeValue s =
     (case timeValue s of
        None \<Rightarrow> Inl RangeError
      | Some t \<Rightarrow>
          if \<bar>t\<bar> > 8640000000000000 then Inl RangeError
          else Inr (date_text_of_day (t div msPerDay)))"

text \<open>\<^verbatim>\<open>projects.filter\<close> with a callback that may throw: the first exception ends it.\<close>

fun filter_date :: "(jsstring \<Rightarrow> int option) \<Rightarrow> jsstring \<Rightarrow> project list \<Rightarrow> error + project list" where
  "filter_date timeValue date [] = Inr []"
| "filter_date timeValue date (project # rest) =
     (case iso_date timeValue (p_createdAt project) of
        Inl e \<Rightarrow> Inl e
      | Inr projectDate \<Rightarrow>
          (case filter_date timeValue date rest of
             Inl e \<Rightarrow> Inl e
           | Inr kept \<Rightarrow> Inr (if projectDate = date then project # kept else kept)))"

definition date_handler :: "(jsstring \<Rightarrow> int option) \<Rightarrow> world \<Rightarrow> jsstring \<Rightarrow> project list response" where
  "date_handler timeValue w date =
     (let projects = readProjects w in
      case filter_date timeValue date projects of
        Inl e \<Rightarrow> Status_500
      | Inr filteredProjects \<Rightarrow> Sent filteredProjects)"

section \<open>Export\<close>










section \<open>The claims in the words of the specification\<close>

text \<open>
  The search as the specification words it. The prefix matches of a search term are the
  cities whose lower-cased name starts with it, in directory order; the word matches are the
  cities outside the prefix matches with a word, cut at hyphens and spaces, that starts with
  it. A query is blank when it has nothing but white space. \<open>claimed_search\<close> takes the
  way the search term is made from the query as an argument.
\<close>

definition prefix_matches :: "jsstring \<Rightarrow> jsstring list" where
  "prefix_matches term = filter (\<lambda>c. prefix term (toLowerCase c)) RUSSIAN_CITIES"

definition word_matches :: "jsstring \<Rightarrow> jsstring list" where
  "word_matches term =
     filter (\<lambda>c. c \<notin> set (prefix_matches term)
                 \<and> list_ex (\<lambda>word. prefix term word) (split_words (toLowerCase c)))
       RUSSIAN_CITIES"

definition is_blank :: "jsstring \<Rightarrow> bool" where
  "is_blank query = list_all is_space query"

definition claimed_search :: "(jsstring \<Rightarrow> jsstring) \<Rightarrow> jsstring \<Rightarrow> jsstring list" where
  "claimed_search term_of query =
     (if is_blank query then []
      else take 15 (prefix_matches (term_of query)
             @ (if length (prefix_matches (term_of query)) < 10
                then word_matches (term_of query) else [])))"

text \<open>
  The filter by creation date as the specification words it: the calendar day of the
  timestamp read with the local date components of the server, that is at the local time
  \<open>t + localTZA t\<close>, where \<open>localTZA\<close> is the offset of the server's time zone from UTC in
  milliseconds.
\<close>

definition claimed_findByCreationDate ::
    "(int \<Rightarrow> int) \<Rightarrow> (jsstring \<Rightarrow> int option) \<Rightarrow> project list \<Rightarrow> jsstring \<Rightarrow> project list" where
  "claimed_findByCreationDate localTZA timeValue projects date =
     filter (\<lambda>p. case timeValue (p_createdAt p) of
                   None \<Rightarrow> False
                 | Some t \<Rightarrow> date_text_of_day ((t + localTZA t) div msPerDay) = date)
       projects"

text \<open>
  What the date handler does compare: the timestamp has a time value in the range of
  \<^verbatim>\<open>Date\<close>, and the calendar day of that time value in UTC reads as the given text.
\<close>

definition valid_time :: "(jsstring \<Rightarrow> int option) \<Rightarrow> project \<Rightarrow> bool" where
  "valid_time timeValue p =
     (case timeValue (p_createdAt p) of None \<Rightarrow> False | Some t \<Rightarrow> \<bar>t\<bar> \<le> 8640000000000000)"

definition utc_date_is :: "(jsstring \<Rightarrow> int option) \<Rightarrow> jsstring \<Rightarrow> project \<Rightarrow> bool" where
  "utc_date_is timeValue date p =
     (case timeValue (p_createdAt p) of
        None \<Rightarrow> False
      | Some t \<Rightarrow> date_text_of_day (t div msPerDay) = date)"


section \<open>Sample data\<close>

text \<open>
  A record as the creation handler stores it, with an e-mail address whose local part is
  quoted (the server's pattern for addresses accepts it), and a backing document holding it.
\<close>

definition sample_contacts :: contacts where
  "sample_contacts =
     \<lparr>c_phone = Some [], c_email = Some (lit ''\"a\"@b.cc''), c_telegram = Some [],
      c_otherContact = Some []\<rparr>"

definition sample_project :: project where
  "sample_project =
     \<lparr>p_id = lit ''project_1'', p_title = lit ''A \"sunny\", flat'', p_tagline = lit ''Sunny'',
      p_description = lit ''Two rooms'', p_image = None,
      p_city = [1054, 1084, 1089, 1082], p_price = lit ''1500'',
      p_contact = Json (Object_value sample_contacts),
      p_phone = None, p_email = Some (lit ''\"a\"@b.cc''), p_telegram = None,
      p_otherContact = None, p_createdAt = lit ''2024-01-15T22:30:00.000Z''\<rparr>"




definition sample_world :: "project list json option \<Rightarrow> world" where
  "sample_world document =
     \<lparr>data_file = document, write_fails = False, files = {lit ''/srv/pics/a.png''},
      undeletable = {}, fs_log = []\<rparr>"


text \<open>
  A reading of timestamps that knows the one of the sample record: 22:30 UTC on
  15 January 2024 is 1705357800000 ms after the epoch.
\<close>

definition sample_timeValue :: "jsstring \<Rightarrow> int option" where
  "sample_timeValue s =
     (if s = lit ''2024-01-15T22:30:00.000Z'' then Some 1705357800000 else None)"

section \<open>Properties of the contact validation\<close>

lemma eleven_elements:
  "length xs = 11 \<Longrightarrow> \<exists>a b c d e f g h i j k. xs = [a, b, c, d, e, f, g, h, i, j, k]"
  by (auto simp: numeral_eq_Suc length_Suc_conv)

lemma formatPhone_eleven:
  assumes "length (strip_non_digits raw) = 11"
  shows "formatPhone raw =
           lit ''+7 ('' @ take 3 (drop 1 (strip_non_digits raw)) @ lit '') ''
             @ take 3 (drop 4 (strip_non_digits raw)) @ lit ''-''
             @ take 2 (drop 7 (strip_non_digits raw)) @ lit ''-''
             @ take 2 (drop 9 (strip_non_digits raw))"
proof -
  from eleven_elements [OF assms] obtain a b c d e f g h i j k
    where ds: "strip_non_digits raw = [a, b, c, d, e, f, g, h, i, j, k]" by blast
  have ne: "raw \<noteq> []" using assms by (auto simp: strip_non_digits_def)
  show ?thesis
    by (simp add: formatPhone_def ne ds Let_def substring_def substring_from_def)
qed

lemma client_formatPhone_eq: "client_formatPhone raw = formatPhone raw"
  by (simp add: client_formatPhone_def formatPhone_def)

lemma formatPhone_other:
  assumes "length (strip_non_digits raw) \<noteq> 11"
  shows "formatPhone raw = raw"
  using assms by (simp add: formatPhone_def Let_def)

lemma formatPhone_shape:
  assumes "strip_non_digits raw = [a, b, c, d, e, f, g, h, i, j, k]"
  shows "formatPhone raw = [43, 55, 32, 40, b, c, d, 41, 32, e, f, g, 45, h, i, 45, j, k]"
proof -
  have "length (strip_non_digits raw) = 11" by (simp add: assms)
  from formatPhone_eleven [OF this] show ?thesis by (simp add: assms lit_def)
qed

lemma is_digit_alt: "is_digit = (\<lambda>u. 48 \<le> u \<and> u \<le> 57)"
  by (simp add: fun_eq_iff is_digit_def)

lemma strip_shape:
  assumes "is_digit b" "is_digit c" "is_digit d" "is_digit e" "is_digit f"
    "is_digit g" "is_digit h" "is_digit i" "is_digit j" "is_digit k"
  shows "strip_non_digits [43, 55, 32, 40, b, c, d, 41, 32, e, f, g, 45, h, i, 45, j, k]
           = [55, b, c, d, e, f, g, h, i, j, k]"
proof -
  have "is_digit 55" "\<not> is_digit 43" "\<not> is_digit 32" "\<not> is_digit 40" "\<not> is_digit 41"
    "\<not> is_digit 45"
    by (simp_all add: is_digit_def)
  then show ?thesis using assms by (simp add: strip_non_digits_def)
qed

lemma strip_formatted:
  assumes "strip_non_digits raw = [a, b, c, d, e, f, g, h, i, j, k]"
  shows "strip_non_digits (formatPhone raw) = [55, b, c, d, e, f, g, h, i, j, k]"
proof -
  have "\<forall>u \<in> set (strip_non_digits raw). is_digit u"
    by (simp add: strip_non_digits_def)
  then have dg: "is_digit b" "is_digit c" "is_digit d" "is_digit e" "is_digit f"
    "is_digit g" "is_digit h" "is_digit i" "is_digit j" "is_digit k"
    by (simp_all add: assms)
  show ?thesis
    by (simp only: formatPhone_shape [OF assms] strip_shape [OF dg])
qed

text \<open>
  Claim C4. \<^verbatim>\<open>formatPhone\<close> keeps the ASCII digits of its argument; when there are exactly
  eleven of them the result is \<^verbatim>\<open>+7 (XXX) XXX-XX-XX\<close> filled with the second to the eleventh
  digit, the first digit being dropped; in every other case the argument comes back
  unchanged. The copy in the browser script computes the same.
\<close>

theorem formatPhone_normalizes:
  "formatPhone raw =
     (let ds = strip_non_digits raw in
      if length ds = 11 then
        lit ''+7 ('' @ [ds ! 1, ds ! 2, ds ! 3] @ lit '') '' @ [ds ! 4, ds ! 5, ds ! 6] @ lit ''-''
          @ [ds ! 7, ds ! 8] @ lit ''-'' @ [ds ! 9, ds ! 10]
      else raw)
   \<and> client_formatPhone raw = formatPhone raw
   \<and> strip_non_digits raw = filter (\<lambda>u. 48 \<le> u \<and> u \<le> 57) raw"
proof -
  have strip: "strip_non_digits raw = filter (\<lambda>u. 48 \<le> u \<and> u \<le> 57) raw"
    by (simp add: strip_non_digits_def is_digit_alt)
  have "formatPhone raw =
     (let ds = strip_non_digits raw in
      if length ds = 11 then
        lit ''+7 ('' @ [ds ! 1, ds ! 2, ds ! 3] @ lit '') '' @ [ds ! 4, ds ! 5, ds ! 6] @ lit ''-''
          @ [ds ! 7, ds ! 8] @ lit ''-'' @ [ds ! 9, ds ! 10]
      else raw)"
  proof (cases "length (strip_non_digits raw) = 11")
    case True
    from eleven_elements [OF True] obtain a b c d e f g h i j k
      where ds: "strip_non_digits raw = [a, b, c, d, e, f, g, h, i, j, k]" by blast
    show ?thesis
      by (simp add: formatPhone_shape [OF ds] ds Let_def lit_def)
  next
    case False
    then show ?thesis by (simp add: formatPhone_other Let_def)
  qed
  with strip show ?thesis by (simp only: client_formatPhone_eq simp_thms)
qed

text \<open>
  Claim C8. On an argument with exactly eleven digits, formatting twice gives the digits
  that formatting once gives, and indeed the same string: \<^verbatim>\<open>formatPhone\<close> is idempotent on
  what it produces for such arguments.
\<close>

theorem formatPhone_idempotent:
  assumes "length (strip_non_digits x) = 11"
  shows "strip_non_digits (formatPhone (formatPhone x)) = strip_non_digits (formatPhone x)
    \<and> formatPhone (formatPhone x) = formatPhone x"
proof -
  from eleven_elements [OF assms] obtain a b c d e f g h i j k
    where ds: "strip_non_digits x = [a, b, c, d, e, f, g, h, i, j, k]" by blast
  have once: "formatPhone x = [43, 55, 32, 40, b, c, d, 41, 32, e, f, g, 45, h, i, 45, j, k]"
    by (rule formatPhone_shape [OF ds])
  have twice: "formatPhone (formatPhone x)
      = [43, 55, 32, 40, b, c, d, 41, 32, e, f, g, 45, h, i, 45, j, k]"
    by (rule formatPhone_shape [OF strip_formatted [OF ds]])
  have "formatPhone (formatPhone x) = formatPhone x"
    by (rule trans [OF twice once [symmetric]])
  then show ?thesis by simp
qed

text \<open>
  Claim C9. Whatever the first of its eleven digits, a raw phone is rewritten by
  \<^verbatim>\<open>formatPhone\<close> to \<^verbatim>\<open>+7 (XXX) XXX-XX-XX\<close> with its second to eleventh digit, a string
  that begins with the literal \<^verbatim>\<open>+7\<close> and whose digits are 7 followed by those ten. So
  \<^verbatim>\<open>validatePhone\<close> accepts the formatted string, while it accepts the raw one only when its
  first digit is 7 or 8, and the creation handler carries on with the formatted string.
\<close>

theorem formatted_phone_accepted:
  assumes "length (strip_non_digits raw) = 11"
  shows "formatPhone raw =
           lit ''+7 (''
             @ [strip_non_digits raw ! 1, strip_non_digits raw ! 2, strip_non_digits raw ! 3]
             @ lit '') ''
             @ [strip_non_digits raw ! 4, strip_non_digits raw ! 5, strip_non_digits raw ! 6]
             @ lit ''-'' @ [strip_non_digits raw ! 7, strip_non_digits raw ! 8]
             @ lit ''-'' @ [strip_non_digits raw ! 9, strip_non_digits raw ! 10]
    \<and> prefix (lit ''+7'') (formatPhone raw)
    \<and> strip_non_digits (formatPhone raw) = 55 # tl (strip_non_digits raw)
    \<and> validatePhone (formatPhone raw)
    \<and> (validatePhone raw \<longleftrightarrow> strip_non_digits raw ! 0 = 55 \<or> strip_non_digits raw ! 0 = 56)
    \<and> create_phone_step raw = Inr (formatPhone raw)"
proof -
  from eleven_elements [OF assms] obtain a b c d e f g h i j k
    where ds: "strip_non_digits raw = [a, b, c, d, e, f, g, h, i, j, k]" by blast
  have shape: "formatPhone raw = [43, 55, 32, 40, b, c, d, 41, 32, e, f, g, 45, h, i, 45, j, k]"
    by (rule formatPhone_shape [OF ds])
  have s1: "strip_non_digits (formatPhone raw) = [55, b, c, d, e, f, g, h, i, j, k]"
    by (rule strip_formatted [OF ds])
  have ne: "raw \<noteq> []" using assms by (auto simp: strip_non_digits_def)
  have ne2: "formatPhone raw \<noteq> []" by (simp add: shape)
  have layout: "formatPhone raw =
           lit ''+7 (''
             @ [strip_non_digits raw ! 1, strip_non_digits raw ! 2, strip_non_digits raw ! 3]
             @ lit '') ''
             @ [strip_non_digits raw ! 4, strip_non_digits raw ! 5, strip_non_digits raw ! 6]
             @ lit ''-'' @ [strip_non_digits raw ! 7, strip_non_digits raw ! 8]
             @ lit ''-'' @ [strip_non_digits raw ! 9, strip_non_digits raw ! 10]"
    by (simp add: shape ds lit_def)
  have plus7: "prefix (lit ''+7'') (formatPhone raw)"
    by (simp add: shape lit_def)
  have digits: "strip_non_digits (formatPhone raw) = 55 # tl (strip_non_digits raw)"
    by (simp add: s1 ds)
  have v: "validatePhone (formatPhone raw)"
    by (simp add: validatePhone_def ne2 s1 Let_def startsWith_def lit_def)
  have rawv: "validatePhone raw \<longleftrightarrow> strip_non_digits raw ! 0 = 55 \<or> strip_non_digits raw ! 0 = 56"
    by (auto simp: validatePhone_def ne ds Let_def startsWith_def lit_def)
  have step: "create_phone_step raw = Inr (formatPhone raw)"
    using v by (simp add: create_phone_step_def ne Let_def)
  from layout plus7 digits v rawv step show ?thesis by blast
qed

theorem formatPhone_normalizes_witness: "formatPhone (lit ''8 (912) 345-67-89'') = lit ''+7 (912) 345-67-89''
   \<and> formatPhone (lit ''12345'') = lit ''12345''"
  using formatPhone_normalizes [of "lit ''8 (912) 345-67-89''"] formatPhone_normalizes [of "lit ''12345''"]
  by (simp add: strip_non_digits_def is_digit_def lit_def Let_def)

theorem formatPhone_idempotent_witness: "length (strip_non_digits (lit ''8 (912) 345-67-89'')) = 11 \<and>
   formatPhone (formatPhone (lit ''8 (912) 345-67-89'')) = formatPhone (lit ''8 (912) 345-67-89'')"
proof -
  have h: "length (strip_non_digits (lit ''8 (912) 345-67-89'')) = 11"
    by (simp add: strip_non_digits_def is_digit_def lit_def)
  show ?thesis using h formatPhone_idempotent [OF h] by simp
qed

theorem formatted_phone_accepted_witness:
  "length (strip_non_digits (lit ''12345678901'')) = 11
   \<and> formatPhone (lit ''12345678901'') = lit ''+7 (234) 567-89-01''
   \<and> validatePhone (lit ''+7 (234) 567-89-01'')
   \<and> \<not> validatePhone (lit ''12345678901'')
   \<and> create_phone_step (lit ''12345678901'') = Inr (lit ''+7 (234) 567-89-01'')"
proof -
  have h: "length (strip_non_digits (lit ''12345678901'')) = 11"
    by (simp add: strip_non_digits_def is_digit_def lit_def)
  show ?thesis
    using formatted_phone_accepted [OF h] h by (auto simp: strip_non_digits_def is_digit_def lit_def)
qed

section \<open>Properties of the record store and its handlers\<close>

lemma readProjects_cases:
  "readProjects w = (case data_file w of Some (Json projects) \<Rightarrow> projects | _ \<Rightarrow> [])"
  by (simp add: readProjects_def readProjects_try_def readFileSync_def JSON_parse_def
      split: option.splits json.splits)

text \<open>
  Claim C7. \<^verbatim>\<open>readProjects\<close> gives the records the backing document parses to; when
  reading the file throws, or parsing its text throws, it gives the empty list. Its result
  is a list in every case: no error reaches the caller.
\<close>

theorem readProjects_fail_soft:
  "(data_file w = Some (Json projects) \<longrightarrow> readProjects w = projects)
   \<and> (readFileSync w = Inl e \<longrightarrow> readProjects w = [])
   \<and> (readFileSync w = Inr text \<and> JSON_parse text = Inl e \<longrightarrow> readProjects w = [])"
  by (auto simp: readProjects_def readProjects_try_def readFileSync_def JSON_parse_def
      split: option.splits json.splits)

theorem readProjects_fail_soft_witness:
  "readProjects (sample_world (Some (Json [sample_project]))) = [sample_project]
   \<and> readProjects (sample_world None) = []
   \<and> readProjects (sample_world (Some Unparsable)) = []"
  using readProjects_fail_soft [of "sample_world (Some (Json [sample_project]))" "[sample_project]"]
    readProjects_fail_soft [of "sample_world None" _ ReadError]
    readProjects_fail_soft [of "sample_world (Some Unparsable)" _ SyntaxError Unparsable]
  by (simp add: sample_world_def readFileSync_def JSON_parse_def)













lemma filter_date_Inr:
  "\<forall>p \<in> set ps. \<exists>d. iso_date tv (p_createdAt p) = Inr d \<Longrightarrow>
   filter_date tv date ps = Inr (filter (\<lambda>p. iso_date tv (p_createdAt p) = Inr date) ps)"
  by (induction ps) (auto split: sum.splits)

lemma filter_date_Inl:
  "\<exists>p \<in> set ps. \<exists>e. iso_date tv (p_createdAt p) = Inl e \<Longrightarrow> \<exists>e. filter_date tv date ps = Inl e"
proof (induction ps)
  case Nil
  then show ?case by simp
next
  case (Cons p ps)
  show ?case
  proof (cases "iso_date tv (p_createdAt p)")
    case (Inl e)
    then show ?thesis by simp
  next
    case (Inr d)
    with Cons.prems have "\<exists>q \<in> set ps. \<exists>e. iso_date tv (p_createdAt q) = Inl e" by auto
    from Cons.IH [OF this] obtain e where "filter_date tv date ps = Inl e" by blast
    with Inr show ?thesis by simp
  qed
qed

lemma iso_date_valid: "valid_time tv p \<longleftrightarrow> (\<exists>d. iso_date tv (p_createdAt p) = Inr d)"
  by (auto simp: valid_time_def iso_date_def split: option.splits)

lemma iso_date_invalid: "\<not> valid_time tv p \<longleftrightarrow> (\<exists>e. iso_date tv (p_createdAt p) = Inl e)"
  by (auto simp: valid_time_def iso_date_def split: option.splits)

lemma iso_date_utc:
  "valid_time tv p \<Longrightarrow> iso_date tv (p_createdAt p) = Inr date \<longleftrightarrow> utc_date_is tv date p"
  by (auto simp: valid_time_def iso_date_def utc_date_is_def split: option.splits)

text \<open>
  Claim C5, amended. The date handler answers with the stored records, in stored order,
  whose creation timestamp falls on the given calendar day in UTC, which is the date that
  \<^verbatim>\<open>toISOString\<close> prints; this when every stored timestamp is a valid date, and with status
  500 otherwise.
\<close>

theorem date_handler_filters_by_utc_day:
  "date_handler timeValue w date =
     (if \<forall>p \<in> set (readProjects w). valid_time timeValue p
      then Sent (filter (utc_date_is timeValue date) (readProjects w))
      else Status_500)"
proof (cases "\<forall>p \<in> set (readProjects w). valid_time timeValue p")
  case True
  then have "\<forall>p \<in> set (readProjects w). \<exists>d. iso_date timeValue (p_createdAt p) = Inr d"
    by (simp add: iso_date_valid)
  from filter_date_Inr [OF this]
  have "filter_date timeValue date (readProjects w)
      = Inr (filter (\<lambda>p. iso_date timeValue (p_createdAt p) = Inr date) (readProjects w))" .
  also have "filter (\<lambda>p. iso_date timeValue (p_createdAt p) = Inr date) (readProjects w)
      = filter (utc_date_is timeValue date) (readProjects w)"
    using True by (intro filter_cong) (simp_all add: iso_date_utc)
  finally show ?thesis using True by (simp add: date_handler_def)
next
  case False
  then have "\<exists>p \<in> set (readProjects w). \<exists>e. iso_date timeValue (p_createdAt p) = Inl e"
    by (simp add: iso_date_invalid [symmetric])
  from filter_date_Inl [OF this] obtain e
    where "filter_date timeValue date (readProjects w) = Inl e" by blast
  with False show ?thesis by (simp add: date_handler_def)
qed

text \<open>Days 19737 and 19738 after the epoch are 15 and 16 January 2024.\<close>

lemma civil_19737: "civil_from_days 19737 = (2024, 1, 15)"
  by code_simp

lemma civil_19738: "civil_from_days 19738 = (2024, 1, 16)"
  by code_simp

lemma day_15: "date_text_of_day 19737 = lit ''2024-01-15''"
  by (simp add: date_text_of_day_def civil_19737 year_text_def pad2_def digit_at_def lit_def)

lemma day_16: "date_text_of_day 19738 = lit ''2024-01-16''"
  by (simp add: date_text_of_day_def civil_19738 year_text_def pad2_def digit_at_def lit_def)

lemma sample_read: "readProjects (sample_world (Some (Json [sample_project]))) = [sample_project]"
  by (simp add: readProjects_cases sample_world_def)

lemma sample_time: "sample_timeValue (p_createdAt sample_project) = Some 1705357800000"
  by (simp add: sample_timeValue_def sample_project_def)

text \<open>
  Claim C5 as stated fails. A record created at 22:30 UTC on 15 January 2024 falls on
  16 January for a server three hours east of UTC; asked for 16 January the handler
  answers with no record.
\<close>

theorem date_handler_not_local_day:
  "date_handler sample_timeValue (sample_world (Some (Json [sample_project]))) (lit ''2024-01-16'')
     = Sent []
   \<and> claimed_findByCreationDate (\<lambda>t. 10800000) sample_timeValue
       (readProjects (sample_world (Some (Json [sample_project])))) (lit ''2024-01-16'')
     = [sample_project]"
proof -
  have d15: "(1705357800000::int) div msPerDay = 19737" by (simp add: msPerDay_def)
  have d16: "(1705368600000::int) div msPerDay = 19738" by (simp add: msPerDay_def)
  have ne: "lit ''2024-01-15'' \<noteq> lit ''2024-01-16''" by (simp add: lit_def)
  have "iso_date sample_timeValue (p_createdAt sample_project) = Inr (lit ''2024-01-15'')"
    by (simp add: iso_date_def sample_time d15 day_15)
  then have "date_handler sample_timeValue (sample_world (Some (Json [sample_project])))
      (lit ''2024-01-16'') = Sent []"
    using ne by (simp add: date_handler_def sample_read)
  moreover have "claimed_findByCreationDate (\<lambda>t. 10800000) sample_timeValue
       (readProjects (sample_world (Some (Json [sample_project])))) (lit ''2024-01-16'')
     = [sample_project]"
    by (simp add: claimed_findByCreationDate_def sample_read sample_time d16 day_16)
  ultimately show ?thesis by simp
qed

theorem date_handler_filters_by_utc_day_witness:
  "date_handler sample_timeValue (sample_world (Some (Json [sample_project]))) (lit ''2024-01-15'')
     = Sent [sample_project]
   \<and> date_handler (\<lambda>s. None) (sample_world (Some (Json [sample_project]))) (lit ''2024-01-15'')
     = Status_500"
proof -
  have d15: "(1705357800000::int) div msPerDay = 19737" by (simp add: msPerDay_def)
  have v: "valid_time sample_timeValue sample_project"
    by (simp add: valid_time_def sample_time)
  have u: "utc_date_is sample_timeValue (lit ''2024-01-15'') sample_project"
    by (simp add: utc_date_is_def sample_time d15 day_15)
  have n: "\<not> valid_time (\<lambda>s. None) sample_project"
    by (simp add: valid_time_def)
  show ?thesis
    using date_handler_filters_by_utc_day [of sample_timeValue "sample_world (Some (Json [sample_project]))" "lit ''2024-01-15''"]
      date_handler_filters_by_utc_day [of "\<lambda>s. None" "sample_world (Some (Json [sample_project]))" "lit ''2024-01-15''"]
    by (simp add: sample_read v u n)
qed











section \<open>Properties of the city directory\<close>

lemma dropWhile_space_Nil: "dropWhile is_space q = [] \<longleftrightarrow> list_all is_space q"
  by (simp add: dropWhile_eq_Nil_conv list_all_iff)

lemma trim_Nil_iff: "trim q = [] \<longleftrightarrow> list_all is_space q"
proof
  assume "trim q = []"
  then have "dropWhile is_space (rev (dropWhile is_space q)) = []"
    by (simp add: trim_def)
  then have all: "\<forall>u \<in> set (dropWhile is_space q). is_space u"
    using iffD1 [OF dropWhile_eq_Nil_conv] by fastforce
  have "dropWhile is_space q = []"
  proof (rule ccontr)
    assume ne: "dropWhile is_space q \<noteq> []"
    then have "\<not> is_space (hd (dropWhile is_space q))" by (rule hd_dropWhile)
    moreover from ne have "hd (dropWhile is_space q) \<in> set (dropWhile is_space q)" by simp
    ultimately show False using all by blast
  qed
  then show "list_all is_space q" by (rule iffD1 [OF dropWhile_space_Nil])
next
  assume "list_all is_space q"
  then have d: "dropWhile is_space q = []" by (rule iffD2 [OF dropWhile_space_Nil])
  show "trim q = []" unfolding trim_def d by simp
qed

lemma search_unfold:
  "search q =
     (if trim q = [] then []
      else take 15 (prefix_matches (trim (toLowerCase q))
             @ (if length (prefix_matches (trim (toLowerCase q))) < 10
                then word_matches (trim (toLowerCase q)) else [])))"
proof -
  let ?t = "trim (toLowerCase q)"
  have w: "filter (\<lambda>city.
             if city \<in> set (prefix_matches ?t) then False
             else list_ex (\<lambda>word. startsWith word ?t) (split_words (toLowerCase city)))
           RUSSIAN_CITIES = word_matches ?t"
    unfolding word_matches_def by (rule filter_cong) (simp_all add: startsWith_def)
  have e: "filter (\<lambda>city. startsWith (toLowerCase city) ?t) RUSSIAN_CITIES = prefix_matches ?t"
    by (simp add: prefix_matches_def startsWith_def)
  have t0: "trim [] = []" by (simp add: trim_def)
  show ?thesis
  proof (cases "trim q = []")
    case True
    then show ?thesis by (simp add: search_def)
  next
    case False
    then have "q \<noteq> []" using t0 by auto
    with False have "search q =
        slice (if length (prefix_matches ?t) < 10
               then prefix_matches ?t @ word_matches ?t else prefix_matches ?t) 0 15"
      unfolding search_def Let_def e w by simp
    with False show ?thesis by (simp add: slice_def)
  qed
qed

text \<open>
  Claim C1, amended. For a blank query the search answers with the empty list. Otherwise the
  search term is the query in lower case with the white space at both ends removed, and the
  answer is the first 15 of: the cities whose lower-cased name starts with the term, in
  directory order, followed, only when these are fewer than 10, by the other cities that have
  a word starting with the term, in directory order.
\<close>

theorem search_prefix_then_words: "search query = claimed_search (\<lambda>q. trim (toLowerCase q)) query"
  by (simp add: search_unfold claimed_search_def is_blank_def trim_Nil_iff)

text \<open>
  The directory at the search terms "om", " om" and "na" (in Cyrillic letters: 1086 1084,
  then the same after a space, then 1085 1072).
\<close>

lemma prefix_matches_om: "prefix_matches [1086, 1084] = [[1054, 1084, 1089, 1082]]"
  by (simp add: prefix_matches_def RUSSIAN_CITIES_def toLowerCase_def lower_unit_def)


lemma word_matches_om: "word_matches [1086, 1084] = []"
  by (simp add: word_matches_def prefix_matches_om)
    (simp add: RUSSIAN_CITIES_def toLowerCase_def lower_unit_def split_words_def is_separator_def
      is_space_def)

lemma prefix_matches_space_om: "prefix_matches [32, 1086, 1084] = []"
  by (simp add: prefix_matches_def RUSSIAN_CITIES_def toLowerCase_def lower_unit_def)

lemma word_matches_space_om: "word_matches [32, 1086, 1084] = []"
  by (simp add: word_matches_def prefix_matches_space_om)
    (simp add: RUSSIAN_CITIES_def toLowerCase_def lower_unit_def split_words_def is_separator_def
      is_space_def)

lemma trim_space_om: "trim [32, 1086, 1084] = [1086, 1084]"
  by (simp add: trim_def is_space_def)

lemma lower_space_om: "toLowerCase [32, 1086, 1084] = [32, 1086, 1084]"
  by (simp add: toLowerCase_def lower_unit_def)

text \<open>
  Claim C1 as stated fails. For the query of a space followed by the two letters of "om" in
  Cyrillic the search answers with Omsk, while no city name and no word of one starts with
  that query as it is written: the sought term is the query without the space.
\<close>

theorem search_untrimmed_query_differs:
  "search [32, 1086, 1084] = [[1054, 1084, 1089, 1082]]
   \<and> claimed_search toLowerCase [32, 1086, 1084] = []"
proof -
  have "search [32, 1086, 1084] = [[1054, 1084, 1089, 1082]]"
    by (simp add: search_unfold lower_space_om trim_space_om prefix_matches_om word_matches_om)
  moreover have "claimed_search toLowerCase [32, 1086, 1084] = []"
    by (simp add: claimed_search_def lower_space_om prefix_matches_space_om word_matches_space_om)
  ultimately show ?thesis by simp
qed

lemma trim_na: "trim (toLowerCase [1053, 1040, 32]) = [1085, 1072]"
  by (simp add: trim_def is_space_def toLowerCase_def lower_unit_def)

lemma prefix_matches_na:
  "prefix_matches [1085, 1072] =
     [[1053, 1072, 1073, 1077, 1088, 1077, 1078, 1085, 1099, 1077, 32, 1063, 1077, 1083, 1085, 1099],
      [1053, 1072, 1083, 1100, 1095, 1080, 1082],
      [1053, 1072, 1079, 1088, 1072, 1085, 1100],
      [1053, 1072, 1093, 1086, 1076, 1082, 1072]]"
  by (simp add: prefix_matches_def RUSSIAN_CITIES_def toLowerCase_def lower_unit_def)

lemma word_matches_na:
  "word_matches [1085, 1072] =
     [[1056, 1086, 1089, 1090, 1086, 1074, 45, 1085, 1072, 45, 1044, 1086, 1085, 1091],
      [1050, 1086, 1084, 1089, 1086, 1084, 1086, 1083, 1100, 1089, 1082, 45, 1085, 1072, 45, 1040,
       1084, 1091, 1088, 1077]]"
  by (simp add: word_matches_def prefix_matches_na)
    (simp add: RUSSIAN_CITIES_def toLowerCase_def lower_unit_def split_words_def is_separator_def
      is_space_def)

theorem search_prefix_then_words_witness:
  "search [1053, 1040, 32] =
     [[1053, 1072, 1073, 1077, 1088, 1077, 1078, 1085, 1099, 1077, 32, 1063, 1077, 1083, 1085, 1099],
      [1053, 1072, 1083, 1100, 1095, 1080, 1082],
      [1053, 1072, 1079, 1088, 1072, 1085, 1100],
      [1053, 1072, 1093, 1086, 1076, 1082, 1072],
      [1056, 1086, 1089, 1090, 1086, 1074, 45, 1085, 1072, 45, 1044, 1086, 1085, 1091],
      [1050, 1086, 1084, 1089, 1086, 1084, 1086, 1083, 1100, 1089, 1082, 45, 1085, 1072, 45, 1040,
       1084, 1091, 1088, 1077]]
   \<and> search [32, 9] = []"
  using search_prefix_then_words [of "[1053, 1040, 32]"] search_prefix_then_words [of "[32, 9]"]
  by (simp add: claimed_search_def is_blank_def is_space_def trim_na prefix_matches_na word_matches_na)

lemma no_empty_city: "[] \<notin> set RUSSIAN_CITIES"
  by (simp add: RUSSIAN_CITIES_def)

text \<open>
  Claim C2. \<^verbatim>\<open>validateCity\<close> holds of a name exactly when the name in lower case equals
  some directory entry in lower case, whole string against whole string. So it holds of
  every spelling of a directory entry that differs from it in letter case only, and it fails
  for the empty string.
\<close>

theorem validateCity_exact_match:
  "(validateCity name \<longleftrightarrow> (\<exists>c \<in> set RUSSIAN_CITIES. toLowerCase c = toLowerCase name))
   \<and> (\<forall>c \<in> set RUSSIAN_CITIES. \<forall>n. toLowerCase n = toLowerCase c \<longrightarrow> validateCity n)
   \<and> \<not> validateCity []"
proof -
  have iff: "validateCity n \<longleftrightarrow> (\<exists>c \<in> set RUSSIAN_CITIES. toLowerCase c = toLowerCase n)" for n
  proof (cases "n = []")
    case True
    have "\<not> (\<exists>c \<in> set RUSSIAN_CITIES. toLowerCase c = toLowerCase [])"
      using no_empty_city by (auto simp: toLowerCase_def)
    with True show ?thesis by (simp add: validateCity_def)
  next
    case False
    then show ?thesis by (simp add: validateCity_def list_ex_iff)
  qed
  have "\<forall>c \<in> set RUSSIAN_CITIES. \<forall>n. toLowerCase n = toLowerCase c \<longrightarrow> validateCity n"
    using iff by auto
  moreover have "\<not> validateCity []" by (simp add: validateCity_def)
  ultimately show ?thesis using iff by blast
qed

lemma moskva_in: "[1052, 1086, 1089, 1082, 1074, 1072] \<in> set RUSSIAN_CITIES"
  by (simp add: RUSSIAN_CITIES_def)

lemma no_mosk: "\<not> (\<exists>c \<in> set RUSSIAN_CITIES. toLowerCase c = [1084, 1086, 1089, 1082])"
  by (simp add: RUSSIAN_CITIES_def toLowerCase_def lower_unit_def)

theorem validateCity_exact_match_witness:
  "validateCity [1052, 1054, 1057, 1050, 1042, 1040]
   \<and> validateCity [1084, 1054, 1089, 1050, 1074, 1040]
   \<and> \<not> validateCity [1084, 1086, 1089, 1082]"
proof -
  have l1: "toLowerCase [1052, 1086, 1089, 1082, 1074, 1072]
      = toLowerCase [1052, 1054, 1057, 1050, 1042, 1040]"
    and l2: "toLowerCase [1052, 1086, 1089, 1082, 1074, 1072]
      = toLowerCase [1084, 1054, 1089, 1050, 1074, 1040]"
    and l3: "toLowerCase [1084, 1086, 1089, 1082] = [1084, 1086, 1089, 1082]"
    by (simp_all add: toLowerCase_def lower_unit_def)
  have a: "validateCity [1052, 1054, 1057, 1050, 1042, 1040]"
    using validateCity_exact_match [of "[1052, 1054, 1057, 1050, 1042, 1040]"] moskva_in l1 by blast
  have b: "validateCity [1084, 1054, 1089, 1050, 1074, 1040]"
    using validateCity_exact_match [of "[1084, 1054, 1089, 1050, 1074, 1040]"] moskva_in l2 by blast
  have c: "\<not> validateCity [1084, 1086, 1089, 1082]"
    using validateCity_exact_match [of "[1084, 1086, 1089, 1082]"] no_mosk by (simp add: l3)
  from a b c show ?thesis by simp
qed

lemma suggest_loop_find:
  "suggest_loop matches s xs = (case find matches xs of Some c \<Rightarrow> Some c | None \<Rightarrow> s)"
  by (induction xs) auto

lemma find_member: "find P xs = Some c \<Longrightarrow> c \<in> set xs"
  by (induction xs) (auto split: if_splits)

lemma falsy_find: "falsy (find P RUSSIAN_CITIES) \<longleftrightarrow> find P RUSSIAN_CITIES = None"
proof (cases "find P RUSSIAN_CITIES")
  case None
  then show ?thesis by (simp add: falsy_def)
next
  case (Some c)
  from find_member [OF Some] no_empty_city have "c \<noteq> []" by auto
  with Some show ?thesis by (simp add: falsy_def)
qed

text \<open>
  Claim C3. For a name that is not valid the handler suggests the first directory entry
  whose lower-cased name starts with the lower-cased input; when there is none, the first
  entry whose lower-cased name contains it; and nothing when there is none either. The
  handler answers for every input: for a valid name with no suggestion.
\<close>

theorem suggestion_first_match:
  "(\<not> validateCity name \<longrightarrow>
      validate_city_handler name =
        \<lparr>resp_city = name, resp_isValid = False,
         resp_suggestion =
           (case find (\<lambda>c. prefix (toLowerCase name) (toLowerCase c)) RUSSIAN_CITIES of
              Some c \<Rightarrow> Some c
            | None \<Rightarrow> find (\<lambda>c. sublist (toLowerCase name) (toLowerCase c)) RUSSIAN_CITIES)\<rparr>)
   \<and> (validateCity name \<longrightarrow>
        validate_city_handler name =
          \<lparr>resp_city = name, resp_isValid = True, resp_suggestion = None\<rparr>)"
proof -
  let ?starts = "\<lambda>c. prefix (toLowerCase name) (toLowerCase c)"
  let ?has = "\<lambda>c. sublist (toLowerCase name) (toLowerCase c)"
  have first: "suggest_loop (\<lambda>russianCity. startsWith (toLowerCase russianCity) (toLowerCase name))
      None RUSSIAN_CITIES = find ?starts RUSSIAN_CITIES"
    by (simp add: suggest_loop_find startsWith_def split: option.splits)
  have second: "suggest_loop (\<lambda>russianCity. includes_str (toLowerCase russianCity) (toLowerCase name))
      s RUSSIAN_CITIES = (case find ?has RUSSIAN_CITIES of Some c \<Rightarrow> Some c | None \<Rightarrow> s)" for s
    by (simp add: suggest_loop_find includes_str_def)
  have invalid: "validate_city_handler name =
        \<lparr>resp_city = name, resp_isValid = False,
         resp_suggestion =
           (case find ?starts RUSSIAN_CITIES of
              Some c \<Rightarrow> Some c
            | None \<Rightarrow> find ?has RUSSIAN_CITIES)\<rparr>"
    if "\<not> validateCity name"
  proof (cases "find ?starts RUSSIAN_CITIES")
    case None
    then show ?thesis using that
      by (simp add: validate_city_handler_def Let_def first second falsy_def split: option.splits)
  next
    case (Some c)
    have "\<not> falsy (Some c)"
      using falsy_find [of ?starts] Some by simp
    with Some show ?thesis using that
      by (simp add: validate_city_handler_def Let_def first second)
  qed
  have valid: "validate_city_handler name =
      \<lparr>resp_city = name, resp_isValid = True, resp_suggestion = None\<rparr>"
    if "validateCity name"
    using that by (simp add: validate_city_handler_def Let_def)
  from invalid valid show ?thesis by blast
qed

text \<open>The directory at the inputs "TOV" in Cyrillic capitals and "zzz".\<close>

lemma lower_tov: "toLowerCase [1058, 1054, 1042] = [1090, 1086, 1074]"
  by (simp add: toLowerCase_def lower_unit_def)

lemma invalid_tov: "\<not> validateCity [1058, 1054, 1042]"
  by (simp add: validateCity_def lower_tov)
    (simp add: RUSSIAN_CITIES_def toLowerCase_def lower_unit_def)

lemma prefix_tov: "find (\<lambda>c. prefix [1090, 1086, 1074] (toLowerCase c)) RUSSIAN_CITIES = None"
  by (simp add: RUSSIAN_CITIES_def toLowerCase_def lower_unit_def)

lemma sublist_tov:
  "find (\<lambda>c. sublist [1090, 1086, 1074] (toLowerCase c)) RUSSIAN_CITIES
     = Some [1056, 1086, 1089, 1090, 1086, 1074, 45, 1085, 1072, 45, 1044, 1086, 1085, 1091]"
  by (simp add: RUSSIAN_CITIES_def toLowerCase_def lower_unit_def sublist_Cons_right)

lemma lower_zzz: "toLowerCase [122, 122, 122] = [122, 122, 122]"
  by (simp add: toLowerCase_def lower_unit_def)

lemma invalid_zzz: "\<not> validateCity [122, 122, 122]"
  by (simp add: validateCity_def lower_zzz)
    (simp add: RUSSIAN_CITIES_def toLowerCase_def lower_unit_def)

lemma prefix_zzz: "find (\<lambda>c. prefix [122, 122, 122] (toLowerCase c)) RUSSIAN_CITIES = None"
  by (simp add: RUSSIAN_CITIES_def toLowerCase_def lower_unit_def)

lemma sublist_zzz: "find (\<lambda>c. sublist [122, 122, 122] (toLowerCase c)) RUSSIAN_CITIES = None"
  by (simp add: RUSSIAN_CITIES_def toLowerCase_def lower_unit_def sublist_Cons_right)

theorem suggestion_first_match_witness:
  "validate_city_handler [1058, 1054, 1042] =
     \<lparr>resp_city = [1058, 1054, 1042], resp_isValid = False,
      resp_suggestion =
        Some [1056, 1086, 1089, 1090, 1086, 1074, 45, 1085, 1072, 45, 1044, 1086, 1085, 1091]\<rparr>
   \<and> validate_city_handler [122, 122, 122] =
     \<lparr>resp_city = [122, 122, 122], resp_isValid = False, resp_suggestion = None\<rparr>"
  using suggestion_first_match [of "[1058, 1054, 1042]"] suggestion_first_match [of "[122, 122, 122]"]
  by (simp add: invalid_tov invalid_zzz lower_tov lower_zzz prefix_tov sublist_tov prefix_zzz
      sublist_zzz)

end
